theory Spec2Isabelle
  imports Complex_Main "HOL-Library.Sublist" "HOL-Library.Log_Nat"
begin

section \<open>Strings, time and the Message model\<close>

text \<open>
  A Python \<open>str\<close> is a sequence of Unicode code points; the sentinels of the source are
  Chinese text, so a string is a list of code points here (\<open>0x56FE\<close> is one element,
  as \<open>len\<close> counts it). A naive \<open>datetime\<close> is the number of microseconds on its
  own time line, so that \<open>timedelta\<close> arithmetic and comparison are integer ones.
\<close>

type_synonym str = "nat list"
type_synonym datetime = int

definition timedelta_minutes :: "int \<Rightarrow> int" where
  "timedelta_minutes n = n * 60000000"

definition timedelta_hours :: "int \<Rightarrow> int" where
  "timedelta_hours n = n * 3600000000"

text \<open>\<open>str.isspace\<close> of one code point: the characters \<open>str.strip()\<close> removes.\<close>

definition isspace :: "nat \<Rightarrow> bool" where
  "isspace c \<longleftrightarrow>
     (0x9 \<le> c \<and> c \<le> 0xD) \<or> (0x1C \<le> c \<and> c \<le> 0x20) \<or> c = 0x85 \<or> c = 0xA0 \<or>
     c = 0x1680 \<or> (0x2000 \<le> c \<and> c \<le> 0x200A) \<or> c = 0x2028 \<or> c = 0x2029 \<or>
     c = 0x202F \<or> c = 0x205F \<or> c = 0x3000"

definition strip :: "str \<Rightarrow> str" where
  "strip s = rev (dropWhile isspace (rev (dropWhile isspace s)))"

text \<open>\<open>sep.join(parts)\<close>.\<close>

fun join :: "str \<Rightarrow> str list \<Rightarrow> str" where
  "join sep [] = []"
| "join sep [x] = x"
| "join sep (x # y # ys) = x @ sep @ join sep (y # ys)"

text \<open>
  The four failure sentinels of the source (image OCR failed, voice fetch failed, image
  processing error, voice processing error: Chinese text between square brackets),
  written out as code points.
\<close>

definition failure_sentinels :: "str list" where
  "failure_sentinels =
     [[0x5B, 0x56FE, 0x7247, 0x4F, 0x43, 0x52, 0x5931, 0x8D25, 0x5D],
      [0x5B, 0x8BED, 0x97F3, 0x83B7, 0x53D6, 0x5931, 0x8D25, 0x5D],
      [0x5B, 0x56FE, 0x7247, 0x5904, 0x7406, 0x5F02, 0x5E38, 0x5D],
      [0x5B, 0x8BED, 0x97F3, 0x5904, 0x7406, 0x5F02, 0x5E38, 0x5D]]"

record Message =
  message_id :: str
  chat_id :: str
  chat_name :: str
  sender_id :: str
  sender_name :: str
  message_type :: str
  content :: str
  timestamp :: datetime
  extracted_text :: str
  content_hash :: str
  is_important :: bool
  value_score :: int

text \<open>
  \<open>Message.__post_init__\<close> (models/data_models.py). The parameter \<open>md5\<close> stands for
  \<open>lambda s: hashlib.md5(s.encode('utf-8')).hexdigest()\<close>, a function of the standard
  library; the strings are taken to be encodable (no lone surrogate).
\<close>

definition post_init :: "(str \<Rightarrow> str) \<Rightarrow> Message \<Rightarrow> Message" where
  "post_init md5 self =
     (if content_hash self = [] then
        let content_parts = [content self];
            content_parts =
              (if extracted_text self \<noteq> [] \<and> extracted_text self \<notin> set failure_sentinels
               then content_parts @ [extracted_text self] else content_parts);
            combined_content = strip (join [0x20] content_parts)
        in self\<lparr>content_hash := md5 combined_content\<rparr>
      else self)"

text \<open>
  The constructor generated by \<open>@dataclass\<close>: \<open>content_hash\<close> has \<open>init=False\<close>
  and the default \<open>""\<close>, then \<open>__post_init__\<close> runs.
\<close>

definition new_Message ::
  "(str \<Rightarrow> str) \<Rightarrow> str \<Rightarrow> str \<Rightarrow> str \<Rightarrow> str \<Rightarrow> str \<Rightarrow> str \<Rightarrow> str \<Rightarrow> datetime \<Rightarrow> str \<Rightarrow> bool \<Rightarrow> int
     \<Rightarrow> Message" where
  "new_Message md5 mid cid cname sid sname mtype cont ts extracted important score =
     post_init md5
       \<lparr>message_id = mid, chat_id = cid, chat_name = cname, sender_id = sid,
        sender_name = sname, message_type = mtype, content = cont, timestamp = ts,
        extracted_text = extracted, content_hash = [], is_important = important,
        value_score = score\<rparr>"

section \<open>Floating point\<close>

text \<open>
  A Python \<open>float\<close> is an IEEE 754 double. A finite double is the rational it denotes,
  and every arithmetic result is rounded to the nearest double, ties to even, by
  \<open>fl\<close> (53 significant bits). Infinities, NaN and the subnormal range are not
  modelled: the weights are ordinary decimal numbers read from the keyword table.
\<close>

type_synonym double = rat

definition round_half_even :: "rat \<Rightarrow> int" where
  "round_half_even x =
     (let f = \<lfloor>x\<rfloor>; r = x - of_int f
      in if r < 1/2 then f else if 1/2 < r then f + 1 else if even f then f else f + 1)"

definition fl :: "rat \<Rightarrow> double" where
  "fl x =
     (if x = 0 then 0
      else let (p, q) = quotient_of \<bar>x\<bar>;
               d = bitlen p - bitlen q;
               e = (if 2 powi d \<le> \<bar>x\<bar> then d else d - 1);
               ulp = 2 powi (e - 52)
           in of_int (round_half_even (x / ulp)) * ulp)"

definition float_add :: "double \<Rightarrow> double \<Rightarrow> double" where
  "float_add a b = fl (a + b)"

definition float_mul :: "double \<Rightarrow> double \<Rightarrow> double" where
  "float_mul a b = fl (a * b)"

text \<open>\<open>sum(...)\<close> of floats: a left fold of \<open>+\<close> from the integer 0.\<close>

definition py_sum :: "double list \<Rightarrow> double" where
  "py_sum xs = foldl float_add 0 xs"

text \<open>\<open>int(x)\<close> of a float truncates towards zero.\<close>

definition py_int :: "double \<Rightarrow> int" where
  "py_int x = (if 0 \<le> x then \<lfloor>x\<rfloor> else \<lceil>x\<rceil>)"

text \<open>Decimal digits of a natural number, as code points.\<close>

fun digits :: "nat \<Rightarrow> str" where
  "digits n = (if n < 10 then [0x30 + n] else digits (n div 10) @ [0x30 + n mod 10])"

declare digits.simps [simp del]

text \<open>\<open>f"{x:.1f}"\<close>: the exact value rounded to one decimal, ties to even.\<close>

definition format_1f :: "double \<Rightarrow> str" where
  "format_1f x =
     (let n = nat (round_half_even (\<bar>x\<bar> * 10))
      in (if x < 0 then [0x2D] else []) @ digits (n div 10) @ [0x2E] @ digits (n mod 10))"

section \<open>Deduplication engine (core/deduplication.py)\<close>

text \<open>A row of the table \<open>message_dedup\<close>; the table is the list of its rows in rowid order.\<close>

record dedup_row =
  d_content_hash :: str
  d_first_message_id :: str
  d_occurrence_count :: int
  d_last_seen :: datetime
  d_created_at :: datetime

definition calculate_content_hash :: "(str \<Rightarrow> str) \<Rightarrow> Message \<Rightarrow> str" where
  "calculate_content_hash md5 message =
     (let content_parts = [content message];
          content_parts =
            (if extracted_text message \<noteq> [] \<and> extracted_text message \<notin> set failure_sentinels
             then content_parts @ [extracted_text message] else content_parts);
          combined_content = strip (join [0x20] content_parts)
      in md5 combined_content)"

text \<open>
  \<open>DeduplicationEngine.is_duplicate\<close>. The environment of one call: \<open>db_ok\<close> says
  whether the SQLite operations go through (any \<open>Exception\<close> inside the \<open>try\<close> is caught,
  the transaction is not committed and the result is \<open>False\<close>); \<open>now\<close> is
  \<open>datetime.now()\<close> and \<open>cur_ts\<close> is SQLite's \<open>CURRENT_TIMESTAMP\<close>. The \<open>INSERT\<close> is a
  plain one: on a row with the same \<open>content_hash\<close> (one outside the window) the
  \<open>UNIQUE\<close> constraint raises, which the handler turns into \<open>False\<close>.
\<close>

definition is_duplicate ::
  "(str \<Rightarrow> str) \<Rightarrow> bool \<Rightarrow> datetime \<Rightarrow> datetime \<Rightarrow> Message \<Rightarrow> dedup_row list
     \<Rightarrow> bool \<times> dedup_row list" where
  "is_duplicate md5 db_ok now cur_ts message tbl =
     (if strip (content message) = [] then (False, tbl)
      else
        let h = calculate_content_hash md5 message in
        if \<not> db_ok then (False, tbl)
        else
          let cutoff_time = now - timedelta_hours 24 in
          (case find (\<lambda>r. d_content_hash r = h \<and> d_last_seen r > cutoff_time) tbl of
             Some result \<Rightarrow>
               (True,
                map (\<lambda>r. if d_content_hash r = h
                          then r\<lparr>d_occurrence_count := d_occurrence_count r + 1,
                                 d_last_seen := cur_ts\<rparr>
                          else r) tbl)
           | None \<Rightarrow>
               if h \<in> d_content_hash ` set tbl then (False, tbl)
               else
                 (False,
                  tbl @ [\<lparr>d_content_hash = h, d_first_message_id = message_id message,
                           d_occurrence_count = 1, d_last_seen = cur_ts,
                           d_created_at = cur_ts\<rparr>])))"

section \<open>JSON values\<close>

text \<open>
  The values \<open>json.loads\<close> returns, which are also what the fields of an analysis hold
  at run time, no field of a reply being checked: \<open>None\<close>, a \<open>bool\<close>, an \<open>int\<close>, a
  \<open>float\<close>, a \<open>str\<close>, a \<open>list\<close> or a \<open>dict\<close> with string keys. A \<open>dict\<close> is the
  list of its members in the order of the text, a later member overriding an earlier one
  of the same name. Floats are finite (the non-finite ones that a reply can also decode
  to are left out).
\<close>

datatype json =
    JNull
  | JBool bool
  | JInt int
  | JFloat double
  | JStr str
  | JArr "json list"
  | JObj "(str \<times> json) list"

text \<open>The truth value of a value, as \<open>if v\<close> and \<open>v and ...\<close> test it.\<close>

definition truthy :: "json \<Rightarrow> bool" where
  "truthy v =
     (case v of
        JNull \<Rightarrow> False
      | JBool b \<Rightarrow> b
      | JInt i \<Rightarrow> i \<noteq> 0
      | JFloat x \<Rightarrow> x \<noteq> 0
      | JStr s \<Rightarrow> s \<noteq> []
      | JArr xs \<Rightarrow> xs \<noteq> []
      | JObj members \<Rightarrow> members \<noteq> [])"

text \<open>\<open>d.get(key, default)\<close> on a decoded object.\<close>

definition dict_get :: "(str \<times> json) list \<Rightarrow> str \<Rightarrow> json \<Rightarrow> json" where
  "dict_get members key dflt =
     (case map_of (rev members) key of Some v \<Rightarrow> v | None \<Rightarrow> dflt)"

text \<open>
  \<open>int(v)\<close>, \<open>None\<close> when it raises (\<open>TypeError\<close> on \<open>None\<close>, a list or a dict).
  What the builtin makes of a string depends on the interpreter (its digit characters,
  its limits) and is the parameter \<open>to_int\<close>, \<open>None\<close> being its \<open>ValueError\<close>.
\<close>

definition int_of_json :: "(str \<Rightarrow> int option) \<Rightarrow> json \<Rightarrow> int option" where
  "int_of_json to_int v =
     (case v of
        JInt i \<Rightarrow> Some i
      | JBool b \<Rightarrow> Some (if b then 1 else 0)
      | JFloat x \<Rightarrow> Some (py_int x)
      | JStr s \<Rightarrow> to_int s
      | JNull \<Rightarrow> None
      | JArr xs \<Rightarrow> None
      | JObj members \<Rightarrow> None)"

text \<open>Whether \<open>len(v)\<close> returns: it raises \<open>TypeError\<close> on \<open>None\<close>, a bool or a number.\<close>

definition has_len :: "json \<Rightarrow> bool" where
  "has_len v = (case v of JStr s \<Rightarrow> True | JArr xs \<Rightarrow> True | JObj members \<Rightarrow> True | _ \<Rightarrow> False)"

definition is_str :: "json \<Rightarrow> bool" where
  "is_str v = (case v of JStr s \<Rightarrow> True | _ \<Rightarrow> False)"

text \<open>
  Whether \<open>', '.join(v[:3])\<close> returns: \<open>v\<close> must take a slice (a string or a list; a
  bool, a number or a dict raises) and the items joined must be strings.
\<close>

definition joinable :: "json \<Rightarrow> bool" where
  "joinable v =
     (case v of JStr s \<Rightarrow> True | JArr xs \<Rightarrow> list_all is_str (take 3 xs) | _ \<Rightarrow> False)"

text \<open>
  What \<open>sqlite3\<close> binds as a parameter: an integer of 64 bits (a larger one raises
  \<open>OverflowError\<close>); and, for a column declared \<open>NOT NULL\<close>, a string or a number, where
  \<open>None\<close> violates the constraint and a list or a dict is not a supported type.
\<close>

definition sqlite_int :: "int \<Rightarrow> bool" where
  "sqlite_int i \<longleftrightarrow> - (2 ^ 63) \<le> i \<and> i < 2 ^ 63"

definition sqlite_not_null :: "json \<Rightarrow> bool" where
  "sqlite_not_null v =
     (case v of
        JStr s \<Rightarrow> True
      | JBool b \<Rightarrow> True
      | JInt i \<Rightarrow> sqlite_int i
      | JFloat x \<Rightarrow> True
      | _ \<Rightarrow> False)"

section \<open>The other data models (models/data_models.py)\<close>

text \<open>
  The fields of \<open>UrgencyAnalysisResult\<close> that are filled from a reply hold whatever the
  reply gave; only \<open>urgency_score\<close> has gone through \<open>int\<close>. \<open>RealtimeAlert\<close> takes
  \<open>alert_content\<close> and \<open>context_message_ids\<close> from them.
\<close>

record KeywordConfig =
  keyword :: str
  category :: str
  weight :: double
  is_active :: bool

record UrgencyAnalysisResult =
  is_urgent :: json
  urgency_score :: int
  push_type :: json
  push_message_ids :: json
  summary :: json
  key_factors :: json

record RealtimeAlert =
  trigger_message_id :: str
  alert_chat_id :: str
  alert_chat_name :: str
  alert_content :: json
  trigger_keywords :: "str list"
  context_message_ids :: json
  alert_urgency_score :: int
  push_time :: datetime

record DailySummary =
  date :: str
  summary_chat_id :: str
  summary_chat_name :: str
  summary_content :: str
  key_topics :: "str list"
  important_events :: "str list"
  action_items :: "str list"
  message_count :: int
  high_value_count :: int
  source_message_ids :: "str list"
  created_at :: datetime

record AlertConfig =
  enable_realtime_alerts :: bool
  urgency_threshold :: int
  max_context_messages :: int
  target_user :: str

section \<open>Database manager (core/database.py)\<close>

text \<open>
  Each table is the list of its rows in rowid order. A row of \<open>messages\<close>,
  \<open>daily_summaries\<close> and \<open>realtime_alerts\<close> is the model object its columns are
  written from and read back into; the columns \<open>push_time\<close> and \<open>created_at\<close> are
  not in the \<open>INSERT\<close>, so they hold SQLite's \<open>CURRENT_TIMESTAMP\<close> (\<open>cur_ts\<close>).
  Every method opens its connection inside \<open>try\<close>: when an operation fails
  (\<open>db_ok\<close> is false) nothing is committed and the handler's value is returned.
\<close>

record chat_row =
  c_chat_id :: str
  c_chat_name :: str
  c_last_message_time :: datetime
  c_total_messages :: int
  c_updated_at :: datetime

record config_row =
  config_key :: str
  config_value :: str
  description :: str
  updated_at :: datetime

record database =
  messages :: "Message list"
  chats :: "chat_row list"
  daily_summaries :: "DailySummary list"
  realtime_alerts :: "RealtimeAlert list"
  alert_keywords :: "KeywordConfig list"
  system_config :: "config_row list"

text \<open>
  \<open>_update_chat_info\<close>: \<open>INSERT OR REPLACE\<close> on the unique \<open>chat_id\<close>, the counter
  read from the row that is replaced.
\<close>

definition update_chat_info :: "datetime \<Rightarrow> str \<Rightarrow> str \<Rightarrow> datetime \<Rightarrow> chat_row list \<Rightarrow> chat_row list" where
  "update_chat_info cur_ts cid cname last_message_time rows =
     filter (\<lambda>r. c_chat_id r \<noteq> cid) rows @
       [\<lparr>c_chat_id = cid, c_chat_name = cname, c_last_message_time = last_message_time,
         c_total_messages =
           (case find (\<lambda>r. c_chat_id r = cid) rows of
              Some r \<Rightarrow> c_total_messages r | None \<Rightarrow> 0) + 1,
         c_updated_at = cur_ts\<rparr>]"

text \<open>\<open>save_message\<close>: \<open>INSERT OR REPLACE\<close> on the unique \<open>message_id\<close>.\<close>

definition save_message :: "bool \<Rightarrow> datetime \<Rightarrow> Message \<Rightarrow> database \<Rightarrow> bool \<times> database" where
  "save_message db_ok cur_ts message db =
     (if db_ok then
        (True,
         db\<lparr>messages :=
               filter (\<lambda>r. message_id r \<noteq> message_id message) (messages db) @ [message],
            chats :=
               update_chat_info cur_ts (chat_id message) (chat_name message)
                 (timestamp message) (chats db)\<rparr>)
      else (False, db))"

text \<open>
  \<open>get_messages_by_date_range\<close>:
  \<open>WHERE chat_id = ? AND timestamp BETWEEN ? AND ? ORDER BY timestamp ASC\<close>, and
  \<open>LIMIT ?\<close> only when \<open>limit\<close> is truthy (neither \<open>None\<close> nor 0). SQLite reads a
  negative \<open>LIMIT\<close> as no limit. Rows of equal timestamp are taken in rowid order.
\<close>

definition get_messages_by_date_range ::
  "bool \<Rightarrow> str \<Rightarrow> datetime \<Rightarrow> datetime \<Rightarrow> int option \<Rightarrow> database \<Rightarrow> Message list" where
  "get_messages_by_date_range db_ok cid start_date end_date limit db =
     (if db_ok then
        let rows =
              sort_key timestamp
                (filter (\<lambda>m. chat_id m = cid \<and> start_date \<le> timestamp m \<and> timestamp m \<le> end_date)
                   (messages db))
        in (case limit of
              None \<Rightarrow> rows
            | Some n \<Rightarrow> if n = 0 then rows else if n < 0 then rows else take (nat n) rows)
      else [])"

text \<open>
  \<open>get_active_keywords\<close>: \<open>WHERE is_active = TRUE ORDER BY weight DESC\<close>; each row
  becomes \<open>KeywordConfig(keyword, category, weight)\<close>, whose \<open>is_active\<close> defaults to
  \<open>True\<close>. On a failure the handler returns the empty list.
\<close>

definition get_active_keywords :: "bool \<Rightarrow> database \<Rightarrow> KeywordConfig list" where
  "get_active_keywords db_ok db =
     (if db_ok then
        map (\<lambda>r. \<lparr>keyword = keyword r, category = category r, weight = weight r, is_active = True\<rparr>)
          (sort_key (\<lambda>r. - weight r) (filter is_active (alert_keywords db)))
      else [])"

text \<open>
  \<open>save_realtime_alert\<close>. Its handler also catches what binding the parameters raises:
  \<open>alert_content\<close> goes to a \<open>NOT NULL\<close> column as it is, \<open>urgency_score\<close> is an
  integer; the two lists go through \<open>json.dumps\<close>, which takes any decoded value.
\<close>

definition save_realtime_alert :: "bool \<Rightarrow> datetime \<Rightarrow> RealtimeAlert \<Rightarrow> database \<Rightarrow> bool \<times> database" where
  "save_realtime_alert db_ok cur_ts alert db =
     (if db_ok \<and> sqlite_not_null (alert_content alert) \<and> sqlite_int (alert_urgency_score alert)
      then (True, db\<lparr>realtime_alerts := realtime_alerts db @ [alert\<lparr>push_time := cur_ts\<rparr>]\<rparr>)
      else (False, db))"

text \<open>
  \<open>save_daily_summary\<close>: \<open>INSERT OR REPLACE\<close> under \<open>UNIQUE(date, chat_id)\<close>: the rows
  that conflict with the new one are deleted, then the new row is inserted.
\<close>

definition save_daily_summary :: "bool \<Rightarrow> datetime \<Rightarrow> DailySummary \<Rightarrow> database \<Rightarrow> bool \<times> database" where
  "save_daily_summary db_ok cur_ts summ db =
     (if db_ok then
        (True,
         db\<lparr>daily_summaries :=
               filter (\<lambda>r. \<not> (date r = date summ \<and> summary_chat_id r = summary_chat_id summ))
                 (daily_summaries db) @ [summ\<lparr>created_at := cur_ts\<rparr>]\<rparr>)
      else (False, db))"

text \<open>\<open>set_config\<close>: \<open>INSERT OR REPLACE\<close> on the unique \<open>config_key\<close>.\<close>

definition set_config :: "bool \<Rightarrow> datetime \<Rightarrow> str \<Rightarrow> str \<Rightarrow> str \<Rightarrow> database \<Rightarrow> bool \<times> database" where
  "set_config db_ok cur_ts key val descr db =
     (if db_ok then
        (True,
         db\<lparr>system_config :=
               filter (\<lambda>r. config_key r \<noteq> key) (system_config db) @
                 [\<lparr>config_key = key, config_value = val, description = descr,
                   updated_at = cur_ts\<rparr>]\<rparr>)
      else (False, db))"

text \<open>
  The tables as \<open>init_database\<close> creates them: empty, but for the default keywords
  and the default configuration, which no claim below depends on and which are left to
  the caller (\<open>kws\<close>, \<open>cfg\<close>).
\<close>

definition init_database :: "KeywordConfig list \<Rightarrow> config_row list \<Rightarrow> database" where
  "init_database kws cfg =
     \<lparr>messages = [], chats = [], daily_summaries = [], realtime_alerts = [],
      alert_keywords = kws, system_config = cfg\<rparr>"

section \<open>AI analysis service (core/ai_service.py)\<close>

text \<open>
  What the remote classifier does in one call of \<open>analyze_urgency\<close>, as far as the code
  tells the cases apart:
  \<^item> \<open>Request_failed\<close>: \<open>client.chat.completions.create\<close> raised, or the reply has no
    text to strip, or \<open>json.loads\<close> raised something that is not a
    \<open>json.JSONDecodeError\<close>; the outer handler catches all of these;
  \<^item> \<open>Json_decode_error\<close>: \<open>json.loads\<close> raised \<open>JSONDecodeError\<close>;
  \<^item> \<open>Json_value v\<close>: \<open>json.loads\<close> returned \<open>v\<close>, of whatever shape.
\<close>

datatype ai_reply = Request_failed | Json_decode_error | Json_value json

text \<open>A request to the classifier, by the values its prompt is rendered from.\<close>

type_synonym ai_request = "Message \<times> Message list \<times> KeywordConfig list"

text \<open>
  The literals \<open>"single"\<close>, \<open>"none"\<close> and \<open>"context"\<close>, and the keys \<open>"is_urgent"\<close>,
  \<open>"urgency_score"\<close>, \<open>"push_type"\<close>, \<open>"push_message_ids"\<close>, \<open>"summary"\<close> and
  \<open>"key_factors"\<close>.
\<close>

definition str_single :: str where
  "str_single = [0x73, 0x69, 0x6E, 0x67, 0x6C, 0x65]"

definition str_none :: str where
  "str_none = [0x6E, 0x6F, 0x6E, 0x65]"

definition str_context :: str where
  "str_context = [0x63, 0x6F, 0x6E, 0x74, 0x65, 0x78, 0x74]"

definition key_is_urgent :: str where
  "key_is_urgent = [0x69, 0x73, 0x5F, 0x75, 0x72, 0x67, 0x65, 0x6E, 0x74]"

definition key_urgency_score :: str where
  "key_urgency_score =
     [0x75, 0x72, 0x67, 0x65, 0x6E, 0x63, 0x79, 0x5F, 0x73, 0x63, 0x6F, 0x72, 0x65]"

definition key_push_type :: str where
  "key_push_type = [0x70, 0x75, 0x73, 0x68, 0x5F, 0x74, 0x79, 0x70, 0x65]"

definition key_push_message_ids :: str where
  "key_push_message_ids =
     [0x70, 0x75, 0x73, 0x68, 0x5F, 0x6D, 0x65, 0x73, 0x73, 0x61, 0x67, 0x65, 0x5F, 0x69, 0x64, 0x73]"

definition key_summary :: str where
  "key_summary = [0x73, 0x75, 0x6D, 0x6D, 0x61, 0x72, 0x79]"

definition key_key_factors :: str where
  "key_key_factors = [0x6B, 0x65, 0x79, 0x5F, 0x66, 0x61, 0x63, 0x74, 0x6F, 0x72, 0x73]"

text \<open>
  The body of the outer handler of \<open>analyze_urgency\<close>: the result built from the weights
  of the matched keywords. The Chinese literal is the prefix of its summary ("keyword
  triggered (weight:").
\<close>

definition keyword_fallback :: "Message \<Rightarrow> KeywordConfig list \<Rightarrow> UrgencyAnalysisResult" where
  "keyword_fallback trigger_msg keywords =
     (let keyword_score = py_sum (map weight keywords);
          urgent = (keyword_score \<ge> 3)
      in \<lparr>is_urgent = JBool urgent,
           urgency_score = min 10 (max 1 (py_int (float_mul keyword_score 2))),
           push_type = JStr (if urgent then str_single else str_none),
           push_message_ids = JArr [JStr (message_id trigger_msg)],
           summary = JStr ([0x5173, 0x952E, 0x8BCD, 0x89E6, 0x53D1, 0x20, 0x28, 0x6743, 0x91CD,
                            0x3A] @ format_1f keyword_score @ [0x29]),
           key_factors = JArr (map (\<lambda>k. JStr (keyword k)) keywords)\<rparr>)"

text \<open>
  \<open>analyze_urgency\<close>. The one request of the call is appended to the log \<open>reqs\<close> of
  requests made so far. A decoded value that is not a dict has no \<open>get\<close>
  (\<open>AttributeError\<close>), and \<open>int\<close> may refuse the score: both leave the inner \<open>try\<close>,
  whose handler is for \<open>JSONDecodeError\<close> only, and reach the outer handler. The other
  fields of a dict are taken as they are. The Chinese literals are the default summary
  ("AI analysis done") and the summary and the factor of the downgraded result ("AI
  analysis failed, low priority by default", "AI parse error").
\<close>

definition analyze_urgency ::
  "(str \<Rightarrow> int option) \<Rightarrow> ai_reply \<Rightarrow> Message \<Rightarrow> Message list \<Rightarrow> KeywordConfig list
     \<Rightarrow> ai_request list \<Rightarrow> UrgencyAnalysisResult \<times> ai_request list" where
  "analyze_urgency to_int reply trigger_msg context_msgs keywords reqs =
     (let reqs = reqs @ [(trigger_msg, context_msgs, keywords)] in
      case reply of
        Json_value (JObj result_data) \<Rightarrow>
          (case int_of_json to_int (dict_get result_data key_urgency_score (JInt 1)) of
             Some score \<Rightarrow>
               (\<lparr>is_urgent = dict_get result_data key_is_urgent (JBool False),
                 urgency_score = score,
                 push_type = dict_get result_data key_push_type (JStr str_none),
                 push_message_ids =
                   dict_get result_data key_push_message_ids
                     (JArr [JStr (message_id trigger_msg)]),
                 summary =
                   dict_get result_data key_summary
                     (JStr [0x41, 0x49, 0x5206, 0x6790, 0x5B8C, 0x6210]),
                 key_factors = dict_get result_data key_key_factors (JArr [])\<rparr>, reqs)
           | None \<Rightarrow> (keyword_fallback trigger_msg keywords, reqs))
      | Json_value other \<Rightarrow> (keyword_fallback trigger_msg keywords, reqs)
      | Json_decode_error \<Rightarrow>
          (\<lparr>is_urgent = JBool False,
            urgency_score = 3,
            push_type = JStr str_none,
            push_message_ids = JArr [JStr (message_id trigger_msg)],
            summary = JStr [0x41, 0x49, 0x5206, 0x6790, 0x5931, 0x8D25, 0xFF0C, 0x9ED8, 0x8BA4,
                            0x4E3A, 0x4F4E, 0x4F18, 0x5148, 0x7EA7],
            key_factors = JArr [JStr [0x41, 0x49, 0x89E3, 0x6790, 0x9519, 0x8BEF]]\<rparr>, reqs)
      | Request_failed \<Rightarrow> (keyword_fallback trigger_msg keywords, reqs))"

section \<open>Realtime alert engine (core/realtime_alerts.py)\<close>

record RealtimeAlertEngine =
  config :: AlertConfig
  engine_target_user :: str
  keywords_cache :: "KeywordConfig list option"
  last_keyword_update :: "datetime option"

text \<open>
  \<open>_get_keywords\<close>: the cache is refilled from the store when there is none or when
  more than five minutes have passed since the last refill; \<open>now\<close> is \<open>datetime.now()\<close>.
\<close>

definition get_keywords ::
  "bool \<Rightarrow> datetime \<Rightarrow> database \<Rightarrow> RealtimeAlertEngine \<Rightarrow> KeywordConfig list \<times> RealtimeAlertEngine" where
  "get_keywords db_ok now db self =
     (let refresh =
            (let kws = get_active_keywords db_ok db
             in (kws, self\<lparr>keywords_cache := Some kws, last_keyword_update := Some now\<rparr>))
      in case keywords_cache self of
           None \<Rightarrow> refresh
         | Some cache \<Rightarrow>
             (case last_keyword_update self of
                None \<Rightarrow> refresh
              | Some last_update \<Rightarrow>
                  if now - last_update > timedelta_minutes 5 then refresh else (cache, self)))"

text \<open>\<open>check_urgent_keywords\<close>: \<open>keyword.keyword in content\<close> is substring containment.\<close>

definition check_urgent_keywords ::
  "bool \<Rightarrow> datetime \<Rightarrow> database \<Rightarrow> RealtimeAlertEngine \<Rightarrow> Message
     \<Rightarrow> KeywordConfig list \<times> RealtimeAlertEngine" where
  "check_urgent_keywords db_ok now db self message =
     (let (keywords, self) = get_keywords db_ok now db self;
          full_content = content message @ extracted_text message
      in (filter (\<lambda>k. sublist (keyword k) full_content) keywords, self))"

text \<open>
  What \<open>bot.send_text\<close> does in one call: it raises, or it returns a response whose
  \<open>code\<close> attribute is the given integer (\<open>None\<close>: the response has no such attribute).
\<close>

datatype send_outcome = Send_raised | Send_returned "int option"

text \<open>
  \<open>build_push_content\<close> renders a text from the trigger message, the context and the
  analysis. The text itself is not modelled: the content of a push is the triple it is
  rendered from. What is modelled is whether the rendering returns, the analysis being
  unchecked: \<open>len(ai_result.push_message_ids)\<close>, evaluated when \<open>push_type\<close> is
  \<open>"context"\<close>, raises on a value without length, and
  \<open>', '.join(ai_result.key_factors[:3])\<close>, evaluated when \<open>key_factors\<close> is true,
  raises on a value it cannot slice or join. \<open>None\<close> is the exception.
\<close>

type_synonym push_content = "Message \<times> Message list \<times> UrgencyAnalysisResult"

definition build_push_content ::
  "Message \<Rightarrow> Message list \<Rightarrow> UrgencyAnalysisResult \<Rightarrow> push_content option" where
  "build_push_content trigger_msg context_msgs ai_result =
     (if push_type ai_result = JStr str_context \<and> \<not> has_len (push_message_ids ai_result)
      then None
      else if truthy (key_factors ai_result) \<and> \<not> joinable (key_factors ai_result)
      then None
      else Some (trigger_msg, context_msgs, ai_result))"

text \<open>
  \<open>execute_push\<close>: the content is built inside the \<open>try\<close>, before \<open>bot.send_text\<close> is
  called; when building it raises, the handler returns \<open>False\<close> and nothing was sent.
  \<open>sent\<close> is the log of the calls of \<open>bot.send_text\<close>, each with its target and its
  content.
\<close>

definition execute_push ::
  "send_outcome \<Rightarrow> str \<Rightarrow> Message \<Rightarrow> Message list \<Rightarrow> UrgencyAnalysisResult
     \<Rightarrow> (str \<times> push_content) list \<Rightarrow> bool \<times> (str \<times> push_content) list" where
  "execute_push outcome target trigger_msg context_msgs ai_result sent =
     (case build_push_content trigger_msg context_msgs ai_result of
        None \<Rightarrow> (False, sent)
      | Some push \<Rightarrow>
          (let sent = sent @ [(target, push)]
           in case outcome of
                Send_returned (Some code) \<Rightarrow> (code = 200, sent)
              | Send_returned None \<Rightarrow> (False, sent)
              | Send_raised \<Rightarrow> (False, sent)))"

text \<open>
  The state the pipeline works on: the database, the ledger of the deduplication
  engine, the alert engine (\<open>None\<close> when the collector was built without one), the
  collector's counters, and the logs of the calls made to the two remote collaborators.
\<close>

record collector_stats =
  total_messages :: int
  filtered_messages :: int
  processed_messages :: int
  error_messages :: int

record world =
  db :: database
  message_dedup :: "dedup_row list"
  alert_engine :: "RealtimeAlertEngine option"
  stats :: collector_stats
  sent :: "(str \<times> push_content) list"
  ai_requests :: "ai_request list"

text \<open>
  What the environment does while one message is processed: for each database
  operation whether it goes through and the \<open>CURRENT_TIMESTAMP\<close> it sees, each reading
  of \<open>datetime.now()\<close>, the classifier's reply, what the builtin \<open>int\<close> makes of a
  string (\<open>None\<close>: it raises \<open>ValueError\<close>) and the outcome of the send.
\<close>

record env =
  dedup_ok :: bool
  dedup_now :: datetime
  dedup_ts :: datetime
  save_ok :: bool
  save_ts :: datetime
  keywords_ok :: bool
  keywords_now :: datetime
  context_ok :: bool
  context_now :: datetime
  reply :: ai_reply
  int_of_str :: "str \<Rightarrow> int option"
  send :: send_outcome
  alert_now :: datetime
  alert_ok :: bool
  alert_ts :: datetime

text \<open>
  \<open>datetime.now().replace(hour=0, minute=0, second=0, microsecond=0)\<close>: the start of
  the day of \<open>now\<close>, a day being 86400000000 microseconds.
\<close>

definition today_start :: "datetime \<Rightarrow> datetime" where
  "today_start now = now - now mod 86400000000"

text \<open>
  \<open>process_potential_alert\<close>, the engine being \<open>self\<close>. The gate tests the truth value
  of \<open>is_urgent\<close>. No statement of its \<open>try\<close> body raises past the handlers of the
  functions it calls, so its own handler, which only logs, has no branch.
\<close>

definition process_potential_alert ::
  "env \<Rightarrow> RealtimeAlertEngine \<Rightarrow> Message \<Rightarrow> KeywordConfig list \<Rightarrow> world \<Rightarrow> world" where
  "process_potential_alert e self trigger_message triggered_keywords w =
     (let context_messages =
            get_messages_by_date_range (context_ok e) (chat_id trigger_message)
              (today_start (context_now e)) (timestamp trigger_message)
              (Some (max_context_messages (config self))) (db w);
          (analysis_result, reqs) =
            analyze_urgency (int_of_str e) (reply e) trigger_message context_messages
              triggered_keywords (ai_requests w);
          w = w\<lparr>ai_requests := reqs\<rparr>
      in if truthy (is_urgent analysis_result)
            \<and> urgency_score analysis_result \<ge> urgency_threshold (config self)
         then
           let (success, log) =
                 execute_push (send e) (engine_target_user self) trigger_message
                   context_messages analysis_result (sent w);
               w = w\<lparr>sent := log\<rparr>
           in if success then
                let alert =
                      \<lparr>trigger_message_id = message_id trigger_message,
                       alert_chat_id = chat_id trigger_message,
                       alert_chat_name = chat_name trigger_message,
                       alert_content = summary analysis_result,
                       trigger_keywords = map keyword triggered_keywords,
                       context_message_ids = push_message_ids analysis_result,
                       alert_urgency_score = urgency_score analysis_result,
                       push_time = alert_now e\<rparr>
                in w\<lparr>db := snd (save_realtime_alert (alert_ok e) (alert_ts e) alert (db w))\<rparr>
              else w
         else w)"

definition check_and_process :: "env \<Rightarrow> RealtimeAlertEngine \<Rightarrow> Message \<Rightarrow> world \<Rightarrow> world" where
  "check_and_process e self message w =
     (if \<not> enable_realtime_alerts (config self) \<or> engine_target_user self = [] then w
      else
        let (triggered_keywords, self) =
              check_urgent_keywords (keywords_ok e) (keywords_now e) (db w) self message;
            w = w\<lparr>alert_engine := Some self\<rparr>
        in if triggered_keywords \<noteq> [] then
             process_potential_alert e self message triggered_keywords w
           else w)"

text \<open>
  \<open>update_target_user\<close>. \<open>set_config\<close> has its whole body inside \<open>try\<close> and returns
  \<open>False\<close> from its handler, so no statement here raises and the handler of
  \<open>update_target_user\<close> is never entered. The literals are the key \<open>'target_user'\<close> and
  its Chinese description.
\<close>

definition update_target_user ::
  "bool \<Rightarrow> datetime \<Rightarrow> str \<Rightarrow> RealtimeAlertEngine \<Rightarrow> database
     \<Rightarrow> bool \<times> RealtimeAlertEngine \<times> database" where
  "update_target_user db_ok cur_ts new_target self d =
     (let old_target = engine_target_user self;
          self = self\<lparr>engine_target_user := new_target\<rparr>;
          self = self\<lparr>config := (config self)\<lparr>target_user := new_target\<rparr>\<rparr>;
          (success, d) =
            set_config db_ok cur_ts
              [0x74, 0x61, 0x72, 0x67, 0x65, 0x74, 0x5F, 0x75, 0x73, 0x65, 0x72] new_target
              [0x63A5, 0x6536, 0x63A8, 0x9001, 0x7684, 0x7528, 0x6237, 0x5FAE, 0x4FE1, 0x49, 0x44] d
      in if success then (True, self, d)
         else
           let self = self\<lparr>engine_target_user := old_target\<rparr>;
               self = self\<lparr>config := (config self)\<lparr>target_user := old_target\<rparr>\<rparr>
           in (False, self, d))"

text \<open>\<open>RealtimeAlertEngine.__init__\<close>.\<close>

definition new_RealtimeAlertEngine :: "AlertConfig \<Rightarrow> RealtimeAlertEngine" where
  "new_RealtimeAlertEngine cfg =
     \<lparr>config = cfg, engine_target_user = target_user cfg, keywords_cache = None,
      last_keyword_update = None\<rparr>"

section \<open>Message collector (core/message_collector.py)\<close>

text \<open>
  \<open>MessageCollector.process_message\<close>. In this model no statement of its \<open>try\<close> body
  raises, so the handler (which counts an error) has no branch.
\<close>

definition process_message :: "(str \<Rightarrow> str) \<Rightarrow> env \<Rightarrow> Message \<Rightarrow> world \<Rightarrow> world" where
  "process_message md5 e message w =
     (let (dup, ledger) =
            is_duplicate md5 (dedup_ok e) (dedup_now e) (dedup_ts e) message (message_dedup w);
          w = w\<lparr>message_dedup := ledger\<rparr>
      in if dup then
           w\<lparr>stats := (stats w)\<lparr>filtered_messages := filtered_messages (stats w) + 1\<rparr>\<rparr>
         else
           let (success, d) = save_message (save_ok e) (save_ts e) message (db w);
               w = w\<lparr>db := d\<rparr>
           in if \<not> success then w
              else
                let w = w\<lparr>stats := (stats w)\<lparr>processed_messages := processed_messages (stats w) + 1\<rparr>\<rparr>
                in (case alert_engine w of
                      Some self \<Rightarrow> check_and_process e self message w
                    | None \<Rightarrow> w))"

section \<open>The fingerprint, as the specification words it\<close>

text \<open>
  The digest of the primary content plus the extracted text joined by a space, the
  extracted text left out when it is empty or a failure sentinel, the whole stripped.
\<close>

definition spec_fingerprint :: "(str \<Rightarrow> str) \<Rightarrow> str \<Rightarrow> str \<Rightarrow> str" where
  "spec_fingerprint md5 cont extracted =
     md5 (strip (if extracted = [] \<or> extracted \<in> set failure_sentinels
                 then cont else cont @ [0x20] @ extracted))"

section \<open>The context, as the specification words it\<close>

text \<open>
  The most recent \<open>limit\<close> messages of the conversation between the start of the current
  day and \<open>as_of\<close>, oldest first: the last \<open>limit\<close> of them in timestamp order.
\<close>

definition spec_recent_context :: "str \<Rightarrow> datetime \<Rightarrow> datetime \<Rightarrow> nat \<Rightarrow> database \<Rightarrow> Message list" where
  "spec_recent_context cid now as_of limit d =
     (let same_day =
            sort_key timestamp
              (filter (\<lambda>m. chat_id m = cid \<and> today_start now \<le> timestamp m \<and> timestamp m \<le> as_of)
                 (messages d))
      in drop (length same_day - limit) same_day)"

section \<open>Concrete inputs\<close>

text \<open>
  Messages, environments and states at which the theorems below are evaluated. Where a
  digest is needed the identity stands in for it: the runs shown do not depend on which
  function it is, only on equal contents having equal digests. No run converts a string
  to an integer, and the conversion is the empty map.
\<close>

definition ex_message :: "str \<Rightarrow> str \<Rightarrow> str \<Rightarrow> datetime \<Rightarrow> Message" where
  "ex_message mid cont extracted ts =
     new_Message id mid [0x67, 0x31] [0x47] [0x75, 0x31] [0x55] [0x74, 0x65, 0x78, 0x74]
       cont ts extracted False 0"

definition ex_env :: env where
  "ex_env =
     \<lparr>dedup_ok = True, dedup_now = 1000, dedup_ts = 1000, save_ok = True, save_ts = 1000,
      keywords_ok = True, keywords_now = 1000, context_ok = True, context_now = 1000,
      reply = Request_failed, int_of_str = Map.empty, send = Send_returned (Some 200),
      alert_now = 1000,
      alert_ok = True, alert_ts = 1000\<rparr>"

definition ex_world :: world where
  "ex_world =
     \<lparr>db = init_database [] [], message_dedup = [], alert_engine = None,
      stats = \<lparr>total_messages = 0, filtered_messages = 0, processed_messages = 0,
               error_messages = 0\<rparr>,
      sent = [], ai_requests = []\<rparr>"


definition ex_first :: Message where "ex_first = ex_message [0x31] [0x68, 0x69] [] 5"
definition ex_second :: Message where "ex_second = ex_message [0x32] [0x68, 0x69] [] 6"

definition ex_day :: datetime where "ex_day = 3 * 86400000000"

definition ex_history :: database where
  "ex_history =
     snd (save_message True (ex_day + 31) (ex_message [0x33] [0x63] [] (ex_day + 30))
       (snd (save_message True (ex_day + 21) (ex_message [0x32] [0x62] [] (ex_day + 20))
         (snd (save_message True (ex_day + 11) (ex_message [0x31] [0x61] [] (ex_day + 10))
           (init_database [] []))))))"


section \<open>The fallback score, as the specification words it\<close>

text \<open>\<open>clamp(round(sum * 2), 1, 10)\<close> of the weights of the matched keywords.\<close>

definition spec_fallback_score :: "rat list \<Rightarrow> int" where
  "spec_fallback_score ws = min 10 (max 1 (round (sum_list ws * 2)))"


text \<open>More concrete inputs: keywords, a trigger message, an engine and a classifier reply.\<close>

definition ex_keyword :: "str \<Rightarrow> double \<Rightarrow> KeywordConfig" where
  "ex_keyword k w = \<lparr>keyword = k, category = [0x75], weight = w, is_active = True\<rparr>"

definition ex_trigger :: Message where
  "ex_trigger = ex_message [0x31] [0x6025] [] 5"

definition ex_engine :: RealtimeAlertEngine where
  "ex_engine =
     new_RealtimeAlertEngine
       \<lparr>enable_realtime_alerts = True, urgency_threshold = 6, max_context_messages = 10,
        target_user = [0x6D, 0x65]\<rparr>"

definition ex_urgent_reply :: ai_reply where
  "ex_urgent_reply =
     Json_value
       (JObj [(key_is_urgent, JBool True), (key_urgency_score, JInt 8),
              (key_push_type, JStr str_single)])"

text \<open>
  More replies: one that decodes to \<open>null\<close>, one whose \<open>is_urgent\<close> is the string
  \<open>"no"\<close>, one whose \<open>key_factors\<close> are numbers; and two matched keywords.
\<close>

definition ex_null_reply :: ai_reply where
  "ex_null_reply = Json_value JNull"

definition ex_untrue_reply :: ai_reply where
  "ex_untrue_reply =
     Json_value (JObj [(key_is_urgent, JStr [0x6E, 0x6F]), (key_urgency_score, JInt 8)])"

definition ex_unrenderable_reply :: ai_reply where
  "ex_unrenderable_reply =
     Json_value
       (JObj [(key_is_urgent, JBool True), (key_urgency_score, JInt 8),
              (key_key_factors, JArr [JInt 1, JInt 2])])"

definition ex_two_keywords :: "KeywordConfig list" where
  "ex_two_keywords =
     [ex_keyword [0x7D27, 0x6025] 2,
      ex_keyword [0x64, 0x65, 0x61, 0x64, 0x6C, 0x69, 0x6E, 0x65] 2]"

section \<open>Sequences of digest saves\<close>

text \<open>
  The key of the \<open>UNIQUE(date, chat_id)\<close> constraint, and a run of calls of
  \<open>save_daily_summary\<close>, each with its own outcome of the database operation and its
  own \<open>CURRENT_TIMESTAMP\<close> (as the rollup job and \<open>regenerate_summary\<close> make them).
\<close>

definition digest_key :: "DailySummary \<Rightarrow> str \<times> str" where
  "digest_key r = (date r, summary_chat_id r)"

fun run_saves :: "(bool \<times> datetime \<times> DailySummary) list \<Rightarrow> database \<Rightarrow> database" where
  "run_saves [] d = d"
| "run_saves ((ok, ts, summ) # rest) d = run_saves rest (snd (save_daily_summary ok ts summ d))"


text \<open>A keyword store with one keyword, an engine whose cache was filled from it, a digest.\<close>

definition ex_keyword_store :: database where
  "ex_keyword_store = init_database [ex_keyword [0x6025] 2] []"

definition ex_cached_engine :: RealtimeAlertEngine where
  "ex_cached_engine = snd (get_keywords True 0 ex_keyword_store ex_engine)"

definition ex_digest :: "str \<Rightarrow> DailySummary" where
  "ex_digest txt =
     \<lparr>date = [0x32, 0x30, 0x32, 0x34, 0x2D, 0x30, 0x31, 0x2D, 0x30, 0x32],
      summary_chat_id = [0x67, 0x31], summary_chat_name = [0x47], summary_content = txt,
      key_topics = [], important_events = [], action_items = [], message_count = 3,
      high_value_count = 0, source_message_ids = [[0x31], [0x32], [0x33]], created_at = 0\<rparr>"

section \<open>Theorems\<close>

text \<open>
  C8. The deduplication engine's digest of any message, whatever its other fields and
  its stored hash, and the fingerprint stored in a Message at construction are both the
  specification's fingerprint of (content, extracted text): the digest of the content
  plus, after a space, the extracted text (left out when empty or a failure sentinel),
  stripped. So the engine's digest of a message with given content and extracted text is
  the fingerprint a message constructed from these two gets, and the fingerprint of a
  newly constructed message is the engine's digest of it.
\<close>

theorem C8_fingerprint_agree:
  "calculate_content_hash md5 m = spec_fingerprint md5 (content m) (extracted_text m)
   \<and> content_hash (new_Message md5 mid cid cname sid sname mtype cont ts extracted important score)
     = spec_fingerprint md5 cont extracted
   \<and> calculate_content_hash md5 (m\<lparr>content := cont, extracted_text := extracted\<rparr>)
     = content_hash (new_Message md5 mid cid cname sid sname mtype cont ts extracted important score)
   \<and> content_hash (new_Message md5 mid cid cname sid sname mtype cont ts extracted important score)
     = calculate_content_hash md5
         (new_Message md5 mid cid cname sid sname mtype cont ts extracted important score)
   \<and> calculate_content_hash md5
         (new_Message md5 mid cid cname sid sname mtype cont ts extracted important score)
     = spec_fingerprint md5 cont extracted"
  by (simp add: new_Message_def post_init_def calculate_content_hash_def spec_fingerprint_def
      Let_def)

text \<open>
  C9. A message whose primary content is empty or whitespace only is reported as not a
  duplicate and the ledger is left as it was, whatever its extracted text is; so two such
  messages with the same extracted text, checked one after the other, are both reported
  as not duplicates and the ledger never records them.
\<close>

theorem C9_blank_content_not_deduplicated:
  assumes "strip (content m1) = []" and "strip (content m2) = []"
  shows "is_duplicate md5 ok1 now1 ts1 m1 tbl = (False, tbl)
       \<and> is_duplicate md5 ok2 now2 ts2 m2 (snd (is_duplicate md5 ok1 now1 ts1 m1 tbl)) = (False, tbl)"
  using assms by (simp add: is_duplicate_def)

text \<open>Evaluation of the concrete inputs.\<close>

lemma strip_blank1: "strip [0x20, 0x20] = []"
  by (simp add: strip_def isspace_def)

lemma strip_blank2: "strip [0x20] = []"
  by (simp add: strip_def isspace_def)

lemma content_ex_message [simp]: "content (ex_message mid cont extracted ts) = cont"
  by (simp add: ex_message_def new_Message_def post_init_def Let_def)

lemma ex_message_sel [simp]:
  "message_id (ex_message mid cont extracted ts) = mid"
  "chat_id (ex_message mid cont extracted ts) = [0x67, 0x31]"
  "timestamp (ex_message mid cont extracted ts) = ts"
  by (simp_all add: ex_message_def new_Message_def post_init_def Let_def)

lemma ex_history_messages:
  "messages ex_history =
     [ex_message [0x31] [0x61] [] (ex_day + 10), ex_message [0x32] [0x62] [] (ex_day + 20),
      ex_message [0x33] [0x63] [] (ex_day + 30)]"
  by (simp add: ex_history_def save_message_def init_database_def)

lemma ex_history_same_day:
  "sort_key timestamp
     (filter (\<lambda>m. chat_id m = [0x67, 0x31] \<and> today_start (ex_day + 50) \<le> timestamp m
                  \<and> timestamp m \<le> ex_day + 40) (messages ex_history))
   = [ex_message [0x31] [0x61] [] (ex_day + 10), ex_message [0x32] [0x62] [] (ex_day + 20),
      ex_message [0x33] [0x63] [] (ex_day + 30)]"
  by (simp add: ex_history_messages today_start_def ex_day_def)

lemma ex_history_context:
  "get_messages_by_date_range True [0x67, 0x31] (today_start (ex_day + 50)) (ex_day + 40) (Some 2)
      ex_history
     = [ex_message [0x31] [0x61] [] (ex_day + 10), ex_message [0x32] [0x62] [] (ex_day + 20)]"
  unfolding get_messages_by_date_range_def Let_def ex_history_same_day by simp

lemma ex_history_recent:
  "spec_recent_context [0x67, 0x31] (ex_day + 50) (ex_day + 40) 2 ex_history
     = [ex_message [0x32] [0x62] [] (ex_day + 20), ex_message [0x33] [0x63] [] (ex_day + 30)]"
  unfolding spec_recent_context_def Let_def ex_history_same_day by simp

text \<open>C9 at two messages of blank content and the same extracted text.\<close>

theorem C9_witness:
  "strip (content (ex_message [0x31] [0x20, 0x20] [0x61] 5)) = []
   \<and> strip (content (ex_message [0x32] [0x20] [0x61] 6)) = []
   \<and> is_duplicate id True 10 10 (ex_message [0x31] [0x20, 0x20] [0x61] 5) [] = (False, [])
   \<and> is_duplicate id True 11 11 (ex_message [0x32] [0x20] [0x61] 6)
        (snd (is_duplicate id True 10 10 (ex_message [0x31] [0x20, 0x20] [0x61] 5) [])) = (False, [])"
proof -
  have a: "strip (content (ex_message [0x31] [0x20, 0x20] [0x61] 5)) = []"
    by (simp add: strip_blank1)
  have b: "strip (content (ex_message [0x32] [0x20] [0x61] 6)) = []"
    by (simp add: strip_blank2)
  show ?thesis
    using a b C9_blank_content_not_deduplicated [OF a b, of id True 10 10 "[]" True 11 11]
    by blast
qed

text \<open>
  C1, as the code has it. A message that the deduplication engine reports as a duplicate
  is counted as filtered and nothing else happens: it is not written to the message
  store, no keyword is matched, the classifier is not called and nothing is sent. Only
  the ledger (its occurrence count and last-seen time) and the counter change.
\<close>

theorem C1_duplicate_is_filtered:
  assumes "fst (is_duplicate md5 (dedup_ok e) (dedup_now e) (dedup_ts e) m (message_dedup w))"
  shows "process_message md5 e m w =
           w\<lparr>message_dedup :=
                snd (is_duplicate md5 (dedup_ok e) (dedup_now e) (dedup_ts e) m (message_dedup w)),
             stats := (stats w)\<lparr>filtered_messages := filtered_messages (stats w) + 1\<rparr>\<rparr>
         \<and> db (process_message md5 e m w) = db w
         \<and> sent (process_message md5 e m w) = sent w
         \<and> ai_requests (process_message md5 e m w) = ai_requests w"
proof -
  obtain dup ledger where d:
    "is_duplicate md5 (dedup_ok e) (dedup_now e) (dedup_ts e) m (message_dedup w) = (dup, ledger)"
    by (cases "is_duplicate md5 (dedup_ok e) (dedup_now e) (dedup_ts e) m (message_dedup w)")
  with assms have "dup" by simp
  with d show ?thesis by (simp add: process_message_def)
qed

lemmas eval_defs =
  process_message_def is_duplicate_def calculate_content_hash_def save_message_def
  update_chat_info_def strip_def isspace_def failure_sentinels_def timedelta_hours_def
  ex_message_def new_Message_def post_init_def ex_env_def ex_world_def init_database_def
  ex_first_def ex_second_def Let_def

lemma ex_world1:
  "process_message id ex_env ex_first ex_world =
     ex_world\<lparr>db := (db ex_world)\<lparr>messages := [ex_first],
                  chats := [\<lparr>c_chat_id = [0x67, 0x31], c_chat_name = [0x47],
                    c_last_message_time = 5, c_total_messages = 1, c_updated_at = 1000\<rparr>]\<rparr>,
        message_dedup := [\<lparr>d_content_hash = [0x68, 0x69], d_first_message_id = [0x31],
           d_occurrence_count = 1, d_last_seen = 1000, d_created_at = 1000\<rparr>],
        stats := (stats ex_world)\<lparr>processed_messages := 1\<rparr>\<rparr>"
  by (simp add: eval_defs)

text \<open>
  C1 as stated fails: the second of two messages with the same content is reported as a
  duplicate and is not in the message store afterwards.
\<close>

theorem C1_counterexample:
  "fst (is_duplicate id (dedup_ok ex_env) (dedup_now ex_env) (dedup_ts ex_env) ex_second
          (message_dedup (process_message id ex_env ex_first ex_world)))
   \<and> ex_second \<notin> set (messages (db (process_message id ex_env ex_second
          (process_message id ex_env ex_first ex_world))))"
  unfolding ex_world1 by (simp add: eval_defs)

text \<open>The theorem on duplicates at the second message of that run.\<close>

theorem C1_witness:
  "fst (is_duplicate id (dedup_ok ex_env) (dedup_now ex_env) (dedup_ts ex_env) ex_second
          (message_dedup (process_message id ex_env ex_first ex_world)))
   \<and> db (process_message id ex_env ex_second (process_message id ex_env ex_first ex_world))
       = db (process_message id ex_env ex_first ex_world)"
proof -
  have h: "fst (is_duplicate id (dedup_ok ex_env) (dedup_now ex_env) (dedup_ts ex_env) ex_second
          (message_dedup (process_message id ex_env ex_first ex_world)))"
    unfolding ex_world1 by (simp add: eval_defs)
  from C1_duplicate_is_filtered [OF h] h show ?thesis by blast
qed

text \<open>
  C2 as stated fails: of three messages of the day and a limit of 2, the query returns the
  first two, where the specification's context is the last two.
\<close>

theorem C2_counterexample:
  "get_messages_by_date_range True [0x67, 0x31] (today_start (ex_day + 50)) (ex_day + 40) (Some 2)
      ex_history
     = [ex_message [0x31] [0x61] [] (ex_day + 10), ex_message [0x32] [0x62] [] (ex_day + 20)]
   \<and> spec_recent_context [0x67, 0x31] (ex_day + 50) (ex_day + 40) 2 ex_history
     = [ex_message [0x32] [0x62] [] (ex_day + 20), ex_message [0x33] [0x63] [] (ex_day + 30)]
   \<and> get_messages_by_date_range True [0x67, 0x31] (today_start (ex_day + 50)) (ex_day + 40) (Some 2)
      ex_history
     \<noteq> spec_recent_context [0x67, 0x31] (ex_day + 50) (ex_day + 40) 2 ex_history"
proof -
  have "message_id (ex_message [0x31] [0x61] [] (ex_day + 10))
          \<noteq> message_id (ex_message [0x32] [0x62] [] (ex_day + 20))"
    by simp
  then have "ex_message [0x31] [0x61] [] (ex_day + 10) \<noteq> ex_message [0x32] [0x62] [] (ex_day + 20)"
    by metis
  then show ?thesis
    unfolding ex_history_context ex_history_recent by simp
qed

lemma sorted_take_le_rest:
  assumes "sorted (map f xs)" and "x \<in> set (take n xs)" and "y \<in> set xs" and "y \<notin> set (take n xs)"
  shows "f x \<le> f y"
proof -
  have "xs = take n xs @ drop n xs" by simp
  with assms(3,4) have "y \<in> set (drop n xs)"
    by (metis Un_iff set_append)
  moreover have "sorted (map f (take n xs) @ map f (drop n xs))"
    using assms(1) by (metis append_take_drop_id map_append)
  ultimately show ?thesis
    using assms(2) by (auto simp: sorted_append)
qed

text \<open>
  C2, as the code has it. With a positive limit and a store that answers, the context is
  the first \<open>limit\<close> messages of the conversation between the start of the current day
  and \<open>as_of\<close> in ascending timestamp order: it is sorted, holds \<open>limit\<close> messages or
  all of them when there are fewer, holds only messages of that conversation and time
  span, and every such message left out is no earlier than each one returned.
\<close>

theorem C2_context_is_earliest:
  assumes "0 < limit"
  shows "let in_day = (\<lambda>m::Message. chat_id m = cid \<and> today_start now \<le> timestamp m \<and> timestamp m \<le> as_of);
             r = get_messages_by_date_range True cid (today_start now) as_of (Some limit) d
         in r = take (nat limit) (sort_key timestamp (filter in_day (messages d)))
          \<and> sorted (map timestamp r)
          \<and> length r = min (nat limit) (length (filter in_day (messages d)))
          \<and> (\<forall>m \<in> set r. m \<in> set (messages d) \<and> in_day m)
          \<and> (\<forall>m \<in> set (messages d). in_day m \<and> m \<notin> set r \<longrightarrow>
                (\<forall>x \<in> set r. timestamp x \<le> timestamp m))"
proof -
  define in_day where
    "in_day = (\<lambda>m::Message. chat_id m = cid \<and> today_start now \<le> timestamp m \<and> timestamp m \<le> as_of)"
  define rows where "rows = sort_key timestamp (filter in_day (messages d))"
  define r where "r = get_messages_by_date_range True cid (today_start now) as_of (Some limit) d"
  have r: "r = take (nat limit) rows"
    using assms by (simp add: r_def rows_def in_day_def get_messages_by_date_range_def)
  have srt: "sorted (map timestamp rows)" by (simp add: rows_def)
  have set_rows: "set rows = {m \<in> set (messages d). in_day m}"
    by (auto simp: rows_def)
  have 1: "sorted (map timestamp r)"
    unfolding r using srt by (metis sorted_wrt_take take_map)
  have 2: "length r = min (nat limit) (length (filter in_day (messages d)))"
    by (simp add: r rows_def min.commute)
  have 3: "\<forall>m \<in> set r. m \<in> set (messages d) \<and> in_day m"
    using set_rows unfolding r by (auto dest: in_set_takeD)
  have 4: "\<forall>m \<in> set (messages d). in_day m \<and> m \<notin> set r \<longrightarrow> (\<forall>x \<in> set r. timestamp x \<le> timestamp m)"
    using sorted_take_le_rest [OF srt] set_rows unfolding r by blast
  show ?thesis
    using r 1 2 3 4 unfolding Let_def r_def rows_def in_day_def by blast
qed


text \<open>The theorem at the three messages above.\<close>

theorem C2_witness:
  "(0::int) < 2
   \<and> get_messages_by_date_range True [0x67, 0x31] (today_start (ex_day + 50)) (ex_day + 40)
        (Some 2) ex_history
      = take (nat 2)
          (sort_key timestamp
             (filter (\<lambda>m. chat_id m = [0x67, 0x31] \<and> today_start (ex_day + 50) \<le> timestamp m
                          \<and> timestamp m \<le> ex_day + 40) (messages ex_history)))
   \<and> sorted (map timestamp (get_messages_by_date_range True [0x67, 0x31]
        (today_start (ex_day + 50)) (ex_day + 40) (Some 2) ex_history))"
proof -
  have h: "(0::int) < 2" by simp
  from C2_context_is_earliest [OF h, of "[0x67, 0x31]" "ex_day + 50" "ex_day + 40" ex_history]
  show ?thesis unfolding Let_def using h by blast
qed

text \<open>Floating-point facts, evaluated on the code equations.\<close>

lemma clamp_py_int: "min 10 (max 1 (py_int x)) = min 10 (max 1 \<lfloor>x\<rfloor>)"
proof (cases "0 \<le> x")
  case True then show ?thesis by (simp add: py_int_def)
next
  case False
  then have "\<lfloor>x\<rfloor> \<le> 0" "\<lceil>x\<rceil> \<le> 0" by (simp_all add: floor_le_iff ceiling_le_iff) 
  then show ?thesis using False by (simp add: py_int_def)
qed

lemma py_sum_two_twos: "py_sum [2, 2] = 4"
  by code_simp

lemma float_mul_4_2: "float_mul 4 2 = 8"
  by code_simp

lemma py_sum_1_8: "py_sum [fl (9/5)] = 8106479329266893 / 4503599627370496"
  by code_simp

lemma float_mul_1_8: "float_mul (8106479329266893 / 4503599627370496) 2 = 8106479329266893 / 2251799813685248"
  by code_simp

lemma py_int_3_6: "py_int (8106479329266893 / 2251799813685248) = 3"
  by code_simp


lemma round_3_6: "round (8106479329266893 / 2251799813685248 :: rat) = 4"
  by code_simp

lemma fl_1_8: "fl (9/5) = 8106479329266893 / 4503599627370496"
  by code_simp

text \<open>The result of a failed request is the keyword fallback.\<close>

lemma analyze_urgency_failed:
  "analyze_urgency to_int Request_failed t ctx kws reqs
     = (keyword_fallback t kws, reqs @ [(t, ctx, kws)])"
  by (simp add: analyze_urgency_def Let_def)

text \<open>
  C3, as the code has it. When the request to the classifier fails, the result is: urgent
  iff the floating-point sum of the matched keywords' weights is at least 3.0; score =
  clamp(floor(sum * 2), 1, 10), the product being truncated by \<open>int\<close>, not rounded;
  push type single if urgent, else none. Weights 2.0 and 2.0 give urgent and score 8.
\<close>

theorem C3_fallback_truncates:
  "let s = py_sum (map weight kws);
       r = fst (analyze_urgency to_int Request_failed t ctx kws reqs)
   in is_urgent r = JBool (3 \<le> s)
    \<and> urgency_score r = min 10 (max 1 \<lfloor>float_mul s 2\<rfloor>)
    \<and> push_type r = JStr (if 3 \<le> s then str_single else str_none)
    \<and> (map weight kws = [2, 2] \<longrightarrow> is_urgent r = JBool True \<and> urgency_score r = 8)"
proof -
  have "map weight kws = [2, 2] \<Longrightarrow> py_sum (map weight kws) = 4" 
    by (simp add: py_sum_two_twos)
  then show ?thesis
    by (auto simp add: analyze_urgency_failed keyword_fallback_def Let_def clamp_py_int
        float_mul_4_2)
qed

text \<open>The theorem at two keywords of weight 2.0.\<close>

theorem C3_witness:
  "map weight [ex_keyword [0x7D27, 0x6025] 2,
               ex_keyword [0x64, 0x65, 0x61, 0x64, 0x6C, 0x69, 0x6E, 0x65] 2] = [2, 2]
   \<and> is_urgent (fst (analyze_urgency Map.empty Request_failed ex_trigger []
         [ex_keyword [0x7D27, 0x6025] 2,
          ex_keyword [0x64, 0x65, 0x61, 0x64, 0x6C, 0x69, 0x6E, 0x65] 2] [])) = JBool True
   \<and> urgency_score (fst (analyze_urgency Map.empty Request_failed ex_trigger []
         [ex_keyword [0x7D27, 0x6025] 2,
          ex_keyword [0x64, 0x65, 0x61, 0x64, 0x6C, 0x69, 0x6E, 0x65] 2] [])) = 8"
proof -
  have h: "map weight [ex_keyword [0x7D27, 0x6025] 2,
               ex_keyword [0x64, 0x65, 0x61, 0x64, 0x6C, 0x69, 0x6E, 0x65] 2] = [2, 2]"
    by (simp add: ex_keyword_def)
  from C3_fallback_truncates [of "[ex_keyword [0x7D27, 0x6025] 2,
          ex_keyword [0x64, 0x65, 0x61, 0x64, 0x6C, 0x69, 0x6E, 0x65] 2]" Map.empty ex_trigger
          "[]" "[]"]
  show ?thesis unfolding Let_def using h by blast
qed

text \<open>
  C3 as stated fails: one keyword of weight 1.8 (the double nearest to it) gives the
  product 3.6, which the code truncates to 3 where rounding gives 4.
\<close>

theorem C3_counterexample:
  "urgency_score (fst (analyze_urgency Map.empty Request_failed ex_trigger []
       [ex_keyword [0x6025] (fl (9/5))] []))
     = 3
   \<and> spec_fallback_score (map weight [ex_keyword [0x6025] (fl (9/5))]) = 4"
  by (simp add: analyze_urgency_failed keyword_fallback_def Let_def ex_keyword_def
      spec_fallback_score_def fl_1_8 py_sum_1_8[unfolded fl_1_8] float_mul_1_8 py_int_3_6
      round_3_6)


lemma execute_push_sent:
  "snd (execute_push outcome target t ctx r lg) =
     (case build_push_content t ctx r of None \<Rightarrow> lg | Some push \<Rightarrow> lg @ [(target, push)])"
  by (simp add: execute_push_def Let_def split: send_outcome.splits option.splits)

lemma execute_push_success:
  "fst (execute_push outcome target t ctx r lg) \<longleftrightarrow>
     build_push_content t ctx r \<noteq> None \<and> outcome = Send_returned (Some 200)"
  by (simp add: execute_push_def Let_def split: send_outcome.splits option.splits)

lemma build_push_content_Some:
  "build_push_content t ctx r = Some push \<Longrightarrow> push = (t, ctx, r)"
  by (simp add: build_push_content_def split: if_splits)

lemma process_potential_alert_unfold:
  "process_potential_alert e self t kws w =
     (let ctx = get_messages_by_date_range (context_ok e) (chat_id t) (today_start (context_now e))
                  (timestamp t) (Some (max_context_messages (config self))) (db w);
          ar = analyze_urgency (int_of_str e) (reply e) t ctx kws (ai_requests w);
          w1 = w\<lparr>ai_requests := snd ar\<rparr>
      in if truthy (is_urgent (fst ar)) \<and> urgency_score (fst ar) \<ge> urgency_threshold (config self)
         then
           let ep = execute_push (send e) (engine_target_user self) t ctx (fst ar) (sent w);
               w2 = w1\<lparr>sent := snd ep\<rparr>
           in if fst ep then
                w2\<lparr>db := snd (save_realtime_alert (alert_ok e) (alert_ts e)
                   \<lparr>trigger_message_id = message_id t, alert_chat_id = chat_id t,
                    alert_chat_name = chat_name t, alert_content = summary (fst ar),
                    trigger_keywords = map keyword kws,
                    context_message_ids = push_message_ids (fst ar),
                    alert_urgency_score = urgency_score (fst ar), push_time = alert_now e\<rparr>
                   (db w))\<rparr>
              else w2
         else w1)"
  unfolding process_potential_alert_def Let_def split_beta by simp

lemma save_realtime_alert_rows:
  "realtime_alerts (snd (save_realtime_alert ok ts a d)) =
     (if fst (save_realtime_alert ok ts a d) then realtime_alerts d @ [a\<lparr>push_time := ts\<rparr>]
      else realtime_alerts d)"
  by (simp add: save_realtime_alert_def)

text \<open>
  C5, as the code has it. For a message at the dispatch gate, which passes when
  \<open>is_urgent\<close> is true as Python tests it and the score reaches the threshold: an alert
  is appended iff the gate passes, the send reports success and the insert into the alert
  table succeeds, and then it is exactly one. The send collaborator is called at most
  once, never when the gate fails, and exactly once whenever the send reports success;
  after a send that fails no alert is recorded and no second send is made.
\<close>

theorem C5_dispatch:
  "let ctx = get_messages_by_date_range (context_ok e) (chat_id t) (today_start (context_now e))
               (timestamp t) (Some (max_context_messages (config self))) (db w);
       r = fst (analyze_urgency (int_of_str e) (reply e) t ctx kws (ai_requests w));
       passes = (truthy (is_urgent r) \<and> urgency_score r \<ge> urgency_threshold (config self));
       success = fst (execute_push (send e) (engine_target_user self) t ctx r (sent w));
       alert = \<lparr>trigger_message_id = message_id t, alert_chat_id = chat_id t,
                alert_chat_name = chat_name t, alert_content = summary r,
                trigger_keywords = map keyword kws,
                context_message_ids = push_message_ids r,
                alert_urgency_score = urgency_score r, push_time = alert_now e\<rparr>;
       inserted = fst (save_realtime_alert (alert_ok e) (alert_ts e) alert (db w));
       w' = process_potential_alert e self t kws w
   in realtime_alerts (db w') =
        (if passes \<and> success \<and> inserted
         then realtime_alerts (db w) @ [alert\<lparr>push_time := alert_ts e\<rparr>]
         else realtime_alerts (db w))
    \<and> (sent w' = sent w \<or> sent w' = sent w @ [(engine_target_user self, t, ctx, r)])
    \<and> (sent w' = sent w @ [(engine_target_user self, t, ctx, r)]
         \<longleftrightarrow> passes \<and> build_push_content t ctx r \<noteq> None)
    \<and> (passes \<and> success \<longrightarrow> sent w' = sent w @ [(engine_target_user self, t, ctx, r)])
    \<and> (success \<longleftrightarrow> build_push_content t ctx r \<noteq> None \<and> send e = Send_returned (Some 200))"
proof -
  define ctx where "ctx = get_messages_by_date_range (context_ok e) (chat_id t)
      (today_start (context_now e)) (timestamp t) (Some (max_context_messages (config self))) (db w)"
  define r where "r = fst (analyze_urgency (int_of_str e) (reply e) t ctx kws (ai_requests w))"
  define passes where
    "passes \<longleftrightarrow> truthy (is_urgent r) \<and> urgency_score r \<ge> urgency_threshold (config self)"
  define ep where "ep = execute_push (send e) (engine_target_user self) t ctx r (sent w)"
  define alert where "alert = \<lparr>trigger_message_id = message_id t, alert_chat_id = chat_id t,
                alert_chat_name = chat_name t, alert_content = summary r,
                trigger_keywords = map keyword kws,
                context_message_ids = push_message_ids r,
                alert_urgency_score = urgency_score r, push_time = alert_now e\<rparr>"
  define w' where "w' = process_potential_alert e self t kws w"
  have sent_ep: "snd ep = (if build_push_content t ctx r = None then sent w
                           else sent w @ [(engine_target_user self, t, ctx, r)])"
    unfolding ep_def execute_push_sent
    by (auto split: option.splits dest: build_push_content_Some)
  have succ: "fst ep \<longleftrightarrow> build_push_content t ctx r \<noteq> None \<and> send e = Send_returned (Some 200)"
    unfolding ep_def by (rule execute_push_success)
  have sent': "sent w' = (if passes then snd ep else sent w)"
    unfolding w'_def process_potential_alert_unfold Let_def
    by (simp add: ctx_def r_def passes_def ep_def)
  have alerts': "realtime_alerts (db w') =
        (if passes \<and> fst ep \<and> fst (save_realtime_alert (alert_ok e) (alert_ts e) alert (db w))
         then realtime_alerts (db w) @ [alert\<lparr>push_time := alert_ts e\<rparr>]
         else realtime_alerts (db w))"
    unfolding w'_def process_potential_alert_unfold Let_def
    by (simp add: ctx_def r_def passes_def ep_def alert_def save_realtime_alert_rows)
  have "realtime_alerts (db w') =
        (if passes \<and> fst ep \<and> fst (save_realtime_alert (alert_ok e) (alert_ts e) alert (db w))
         then realtime_alerts (db w) @ [alert\<lparr>push_time := alert_ts e\<rparr>]
         else realtime_alerts (db w))
    \<and> (sent w' = sent w \<or> sent w' = sent w @ [(engine_target_user self, t, ctx, r)])
    \<and> (sent w' = sent w @ [(engine_target_user self, t, ctx, r)]
         \<longleftrightarrow> passes \<and> build_push_content t ctx r \<noteq> None)
    \<and> (passes \<and> fst ep \<longrightarrow> sent w' = sent w @ [(engine_target_user self, t, ctx, r)])
    \<and> (fst ep \<longleftrightarrow> build_push_content t ctx r \<noteq> None \<and> send e = Send_returned (Some 200))"
    using alerts' succ by (auto simp: sent' sent_ep)
  then show ?thesis
    unfolding Let_def ctx_def r_def passes_def ep_def alert_def w'_def by blast
qed

lemmas alert_eval_defs =
  analyze_urgency_def keyword_fallback_def dict_get_def int_of_json_def truthy_def
  build_push_content_def has_len_def joinable_def is_str_def sqlite_not_null_def
  sqlite_int_def execute_push_def save_realtime_alert_def get_messages_by_date_range_def
  key_is_urgent_def key_urgency_score_def key_push_type_def key_push_message_ids_def
  key_summary_def key_key_factors_def str_single_def str_none_def str_context_def
  ex_urgent_reply_def ex_null_reply_def ex_untrue_reply_def ex_unrenderable_reply_def
  ex_two_keywords_def ex_keyword_def ex_engine_def new_RealtimeAlertEngine_def ex_env_def
  ex_world_def init_database_def Let_def




text \<open>
  C5 as stated fails twice. The gate passes and the send succeeds, but the insert into the
  alert table fails: \<open>save_realtime_alert\<close> returns \<open>False\<close>, the engine ignores it and no
  alert is recorded. And a reply whose \<open>is_urgent\<close> is the string \<open>"no"\<close>, which is not
  \<open>true\<close> but is true as Python tests it, passes the gate and has its alert recorded.
\<close>

theorem C5_counterexample:
  "truthy (is_urgent (fst (analyze_urgency Map.empty ex_urgent_reply ex_trigger []
       [ex_keyword [0x6025] 2] [])))
   \<and> is_urgent (fst (analyze_urgency Map.empty ex_urgent_reply ex_trigger []
       [ex_keyword [0x6025] 2] [])) = JBool True
   \<and> urgency_score (fst (analyze_urgency Map.empty ex_urgent_reply ex_trigger []
       [ex_keyword [0x6025] 2] [])) \<ge> urgency_threshold (config ex_engine)
   \<and> fst (execute_push (send (ex_env\<lparr>reply := ex_urgent_reply, alert_ok := False\<rparr>))
       (engine_target_user ex_engine) ex_trigger []
       (fst (analyze_urgency Map.empty ex_urgent_reply ex_trigger [] [ex_keyword [0x6025] 2] [])) [])
   \<and> realtime_alerts (db (process_potential_alert
       (ex_env\<lparr>reply := ex_urgent_reply, alert_ok := False\<rparr>) ex_engine ex_trigger
       [ex_keyword [0x6025] 2] ex_world)) = []
   \<and> length (sent (process_potential_alert
       (ex_env\<lparr>reply := ex_urgent_reply, alert_ok := False\<rparr>) ex_engine ex_trigger
       [ex_keyword [0x6025] 2] ex_world)) = 1
   \<and> is_urgent (fst (analyze_urgency Map.empty ex_untrue_reply ex_trigger []
       [ex_keyword [0x6025] 2] [])) \<noteq> JBool True
   \<and> length (realtime_alerts (db (process_potential_alert
       (ex_env\<lparr>reply := ex_untrue_reply\<rparr>) ex_engine ex_trigger
       [ex_keyword [0x6025] 2] ex_world))) = 1"
  unfolding process_potential_alert_unfold
  by (simp add: alert_eval_defs)

text \<open>
  A reply whose \<open>key_factors\<close> are numbers: the gate passes, rendering the push raises
  inside \<open>execute_push\<close>, and nothing is sent or recorded.
\<close>

lemma ex_unrenderable_push:
  "sent (process_potential_alert (ex_env\<lparr>reply := ex_unrenderable_reply\<rparr>) ex_engine ex_trigger
       [ex_keyword [0x6025] 2] ex_world) = []
   \<and> realtime_alerts (db (process_potential_alert (ex_env\<lparr>reply := ex_unrenderable_reply\<rparr>)
       ex_engine ex_trigger [ex_keyword [0x6025] 2] ex_world)) = []"
  unfolding process_potential_alert_unfold
  by (simp add: alert_eval_defs)

text \<open>C5 at a reply of score 8 against the threshold 6: one alert, one send.\<close>

theorem C5_witness:
  "length (realtime_alerts (db (process_potential_alert (ex_env\<lparr>reply := ex_urgent_reply\<rparr>)
       ex_engine ex_trigger [ex_keyword [0x6025] 2] ex_world))) = 1
   \<and> length (sent (process_potential_alert (ex_env\<lparr>reply := ex_urgent_reply\<rparr>)
       ex_engine ex_trigger [ex_keyword [0x6025] 2] ex_world)) = 1"
  using C5_dispatch [where e = "ex_env\<lparr>reply := ex_urgent_reply\<rparr>" and t = ex_trigger
      and self = ex_engine and w = ex_world and kws = "[ex_keyword [0x6025] 2]"]
  unfolding Let_def
  by (simp add: alert_eval_defs)

text \<open>
  C6, as the code has it. While the cache is at most five minutes old the call returns it
  and leaves the engine as it is, without reading the store; so after a call that
  refilled the cache at \<open>t_a\<close>, a call within the next five minutes returns the same
  keywords whatever the store holds or does. A refill that fails does not raise, but it
  replaces the cache by the empty list and stamps it with the time of the attempt: the
  empty set is then served until more than five minutes have passed.
\<close>

theorem C6_keyword_cache:
  "(keywords_cache self = Some cache \<and> last_keyword_update self = Some t
      \<and> now - t \<le> timedelta_minutes 5
     \<longrightarrow> get_keywords ok now d self = (cache, self))
   \<and> (last_keyword_update (snd (get_keywords ok_a t_a d_a self)) = Some t_a
      \<and> t_b - t_a \<le> timedelta_minutes 5
     \<longrightarrow> get_keywords ok_b t_b d_b (snd (get_keywords ok_a t_a d_a self))
         = (fst (get_keywords ok_a t_a d_a self), snd (get_keywords ok_a t_a d_a self)))
   \<and> (keywords_cache self = Some cache \<and> last_keyword_update self = Some t
      \<and> later - t > timedelta_minutes 5
     \<longrightarrow> get_keywords False later d self
         = ([], self\<lparr>keywords_cache := Some [], last_keyword_update := Some later\<rparr>))"
proof -
  have a: "keywords_cache self = Some cache \<and> last_keyword_update self = Some t
      \<and> now - t \<le> timedelta_minutes 5
     \<longrightarrow> get_keywords ok now d self = (cache, self)" for ok now d self cache t
    by (simp add: get_keywords_def Let_def)
  have c: "keywords_cache (snd (get_keywords ok_a t_a d_a self))
             = Some (fst (get_keywords ok_a t_a d_a self))"
    by (simp add: get_keywords_def Let_def split: option.splits)
  have b: "last_keyword_update (snd (get_keywords ok_a t_a d_a self)) = Some t_a
      \<and> t_b - t_a \<le> timedelta_minutes 5
     \<longrightarrow> get_keywords ok_b t_b d_b (snd (get_keywords ok_a t_a d_a self))
         = (fst (get_keywords ok_a t_a d_a self), snd (get_keywords ok_a t_a d_a self))"
    using a c by blast
  have e: "keywords_cache self = Some cache \<and> last_keyword_update self = Some t
      \<and> later - t > timedelta_minutes 5
     \<longrightarrow> get_keywords False later d self
         = ([], self\<lparr>keywords_cache := Some [], last_keyword_update := Some later\<rparr>)"
    by (simp add: get_keywords_def get_active_keywords_def Let_def)
  from a b e show ?thesis by blast
qed

lemma ex_cached_engine_eq:
  "ex_cached_engine =
     ex_engine\<lparr>keywords_cache := Some [ex_keyword [0x6025] 2], last_keyword_update := Some 0\<rparr>"
  by (simp add: ex_cached_engine_def get_keywords_def get_active_keywords_def ex_keyword_store_def
      init_database_def ex_engine_def new_RealtimeAlertEngine_def ex_keyword_def Let_def)

lemma ex_failed_refresh:
  "get_keywords False (timedelta_minutes 5 + 1) ex_keyword_store ex_cached_engine
     = ([], ex_engine\<lparr>keywords_cache := Some [],
               last_keyword_update := Some (timedelta_minutes 5 + 1)\<rparr>)"
  by (simp add: ex_cached_engine_eq get_keywords_def get_active_keywords_def Let_def
      timedelta_minutes_def ex_engine_def new_RealtimeAlertEngine_def)

text \<open>
  C6 as stated fails: with one keyword in the cache, a refill that fails after five minutes
  serves the empty set, and so does the next call, although the store answers again.
\<close>

theorem C6_counterexample:
  "keywords_cache ex_cached_engine = Some [ex_keyword [0x6025] 2]
   \<and> fst (get_keywords False (timedelta_minutes 5 + 1) ex_keyword_store ex_cached_engine) = []
   \<and> fst (get_keywords True (timedelta_minutes 5 + 2) ex_keyword_store
        (snd (get_keywords False (timedelta_minutes 5 + 1) ex_keyword_store ex_cached_engine))) = []"
  unfolding ex_failed_refresh
  by (simp add: ex_cached_engine_eq get_keywords_def Let_def timedelta_minutes_def)

text \<open>C6 at the engine with one cached keyword.\<close>

theorem C6_witness:
  "get_keywords True 1 ex_keyword_store ex_cached_engine
     = ([ex_keyword [0x6025] 2], ex_cached_engine)
   \<and> get_keywords True (timedelta_minutes 5 + 2) ex_keyword_store
        (snd (get_keywords False (timedelta_minutes 5 + 1) ex_keyword_store ex_cached_engine))
     = (fst (get_keywords False (timedelta_minutes 5 + 1) ex_keyword_store ex_cached_engine),
        snd (get_keywords False (timedelta_minutes 5 + 1) ex_keyword_store ex_cached_engine))
   \<and> get_keywords False (timedelta_minutes 5 + 1) ex_keyword_store ex_cached_engine
     = ([], ex_cached_engine\<lparr>keywords_cache := Some [],
               last_keyword_update := Some (timedelta_minutes 5 + 1)\<rparr>)"
proof -
  have h1: "keywords_cache ex_cached_engine = Some [ex_keyword [0x6025] 2]
            \<and> last_keyword_update ex_cached_engine = Some 0"
    by (simp add: ex_cached_engine_eq)
  have h2: "(1::int) - 0 \<le> timedelta_minutes 5"
    and h3: "timedelta_minutes 5 + 1 - 0 > timedelta_minutes 5"
    and h4: "timedelta_minutes 5 + 2 - (timedelta_minutes 5 + 1) \<le> timedelta_minutes 5"
    by (simp_all add: timedelta_minutes_def)
  have h5: "last_keyword_update (snd (get_keywords False (timedelta_minutes 5 + 1) ex_keyword_store
               ex_cached_engine)) = Some (timedelta_minutes 5 + 1)"
    by (simp add: ex_failed_refresh)
  from C6_keyword_cache [where self = ex_cached_engine and cache = "[ex_keyword [0x6025] 2]"
      and t = 0 and now = 1 and ok = True and d = ex_keyword_store
      and ok_a = False and t_a = "timedelta_minutes 5 + 1" and d_a = ex_keyword_store
      and t_b = "timedelta_minutes 5 + 2" and ok_b = True and d_b = ex_keyword_store
      and later = "timedelta_minutes 5 + 1"]
    h1 h2 h3 h4 h5
  show ?thesis by blast
qed

lemma save_daily_summary_rows:
  "daily_summaries (snd (save_daily_summary ok ts s d)) =
     (if ok then filter (\<lambda>r. digest_key r \<noteq> digest_key s) (daily_summaries d) @ [s\<lparr>created_at := ts\<rparr>]
      else daily_summaries d)"
  by (simp add: save_daily_summary_def digest_key_def)

lemma save_daily_summary_ok: "fst (save_daily_summary ok ts s d) = ok"
  by (simp add: save_daily_summary_def)

lemma digest_key_created_at [simp]: "digest_key (s\<lparr>created_at := ts\<rparr>) = digest_key s"
  by (simp add: digest_key_def)

lemma save_keeps_distinct:
  assumes "distinct (map digest_key (daily_summaries d))"
  shows "distinct (map digest_key (daily_summaries (snd (save_daily_summary ok ts s d))))"
proof (cases ok)
  case True
  have "distinct (map digest_key (filter (\<lambda>r. digest_key r \<noteq> digest_key s) (daily_summaries d)))"
    using assms by (rule distinct_map_filter)
  moreover have "digest_key s \<notin> digest_key ` set (filter (\<lambda>r. digest_key r \<noteq> digest_key s) (daily_summaries d))"
    by auto
  ultimately show ?thesis using True by (simp add: save_daily_summary_rows)
next
  case False
  with assms show ?thesis by (simp add: save_daily_summary_rows)
qed

lemma run_saves_distinct:
  "distinct (map digest_key (daily_summaries d))
     \<Longrightarrow> distinct (map digest_key (daily_summaries (run_saves ops d)))"
proof (induction ops arbitrary: d)
  case Nil
  then show ?case by simp
next
  case (Cons op ops)
  obtain ok ts s where op: "op = (ok, ts, s)" by (cases op)
  from Cons.prems have "distinct (map digest_key (daily_summaries (snd (save_daily_summary ok ts s d))))"
    by (rule save_keeps_distinct)
  then show ?case unfolding op by (simp add: Cons.IH)
qed

lemma save_one_row:
  "fst (save_daily_summary ok ts s d) \<Longrightarrow>
     filter (\<lambda>r. digest_key r = digest_key s) (daily_summaries (snd (save_daily_summary ok ts s d)))
       = [s\<lparr>created_at := ts\<rparr>]"
  by (simp add: save_daily_summary_rows save_daily_summary_ok)

text \<open>
  C7. After any run of digest saves on the tables as \<open>init_database\<close> creates them, no
  two rows of the digest table have the same (date, conversation). A save that goes
  through leaves exactly one row for its key, the digest just saved; so after two saves
  for one key the only row for it is the second digest.
\<close>

theorem C7_digest_upsert:
  "distinct (map digest_key (daily_summaries (run_saves ops (init_database kws cfg))))
   \<and> (fst (save_daily_summary ok ts s d) \<longrightarrow>
        filter (\<lambda>r. digest_key r = digest_key s)
          (daily_summaries (snd (save_daily_summary ok ts s d))) = [s\<lparr>created_at := ts\<rparr>])
   \<and> (fst (save_daily_summary ok1 ts1 s1 d) \<and> digest_key s2 = digest_key s1
        \<and> fst (save_daily_summary ok2 ts2 s2 (snd (save_daily_summary ok1 ts1 s1 d))) \<longrightarrow>
        filter (\<lambda>r. digest_key r = digest_key s1)
          (daily_summaries
             (snd (save_daily_summary ok2 ts2 s2 (snd (save_daily_summary ok1 ts1 s1 d)))))
          = [s2\<lparr>created_at := ts2\<rparr>])"
proof -
  have "distinct (map digest_key (daily_summaries (init_database kws cfg)))"
    by (simp add: init_database_def)
  then have 1: "distinct (map digest_key (daily_summaries (run_saves ops (init_database kws cfg))))"
    by (rule run_saves_distinct)
  have 3: "filter (\<lambda>r. digest_key r = digest_key s1)
          (daily_summaries
             (snd (save_daily_summary ok2 ts2 s2 (snd (save_daily_summary ok1 ts1 s1 d)))))
          = [s2\<lparr>created_at := ts2\<rparr>]"
    if "digest_key s2 = digest_key s1"
      and "fst (save_daily_summary ok2 ts2 s2 (snd (save_daily_summary ok1 ts1 s1 d)))"
    using save_one_row [OF that(2)] that(1) by simp
  from 1 3 save_one_row show ?thesis by blast
qed

text \<open>C7 at two digests of one day and conversation.\<close>

theorem C7_witness:
  "fst (save_daily_summary True 1 (ex_digest [0x61]) (init_database [] []))
   \<and> digest_key (ex_digest [0x62]) = digest_key (ex_digest [0x61])
   \<and> fst (save_daily_summary True 2 (ex_digest [0x62])
        (snd (save_daily_summary True 1 (ex_digest [0x61]) (init_database [] []))))
   \<and> daily_summaries (snd (save_daily_summary True 2 (ex_digest [0x62])
        (snd (save_daily_summary True 1 (ex_digest [0x61]) (init_database [] [])))))
      = [(ex_digest [0x62])\<lparr>created_at := 2\<rparr>]"
proof -
  have h1: "fst (save_daily_summary True 1 (ex_digest [0x61]) (init_database [] []))"
    by (simp add: save_daily_summary_def)
  have h2: "digest_key (ex_digest [0x62]) = digest_key (ex_digest [0x61])"
    by (simp add: digest_key_def ex_digest_def)
  have h3: "fst (save_daily_summary True 2 (ex_digest [0x62])
        (snd (save_daily_summary True 1 (ex_digest [0x61]) (init_database [] []))))"
    by (simp add: save_daily_summary_def)
  have all_same: "filter (\<lambda>r. digest_key r = digest_key (ex_digest [0x61]))
        (daily_summaries (snd (save_daily_summary True 2 (ex_digest [0x62])
        (snd (save_daily_summary True 1 (ex_digest [0x61]) (init_database [] []))))))
      = daily_summaries (snd (save_daily_summary True 2 (ex_digest [0x62])
        (snd (save_daily_summary True 1 (ex_digest [0x61]) (init_database [] [])))))"
    by (simp add: save_daily_summary_def init_database_def digest_key_def ex_digest_def)
  from C7_digest_upsert [of "[]" "[]" "[]" True 1 "ex_digest [0x61]" "init_database [] []"
      True 1 "ex_digest [0x61]" "ex_digest [0x62]" True 2] h1 h2 h3
  have "filter (\<lambda>r. digest_key r = digest_key (ex_digest [0x61]))
        (daily_summaries (snd (save_daily_summary True 2 (ex_digest [0x62])
        (snd (save_daily_summary True 1 (ex_digest [0x61]) (init_database [] []))))))
      = [(ex_digest [0x62])\<lparr>created_at := 2\<rparr>]"
    by blast
  with all_same h1 h2 h3 show ?thesis by simp
qed

text \<open>
  C10. The engine keeps its own target and its configuration's target equal (the
  constructor makes them so, and the last conjunct says that the call keeps them so). On
  such an engine the call returns whether \<open>set_config\<close> persisted the value: if it did
  not, the engine, with both targets, and the database are as before the call; if it did,
  both targets are the new value.
\<close>

theorem C10_update_target_user:
  assumes "engine_target_user self = target_user (config self)"
  shows "let key = [0x74, 0x61, 0x72, 0x67, 0x65, 0x74, 0x5F, 0x75, 0x73, 0x65, 0x72];
             descr = [0x63A5, 0x6536, 0x63A8, 0x9001, 0x7684, 0x7528, 0x6237, 0x5FAE, 0x4FE1, 0x49, 0x44];
             persisted = fst (set_config db_ok cur_ts key new_target descr d);
             (result, self', d') = update_target_user db_ok cur_ts new_target self d
         in result = persisted
          \<and> d' = snd (set_config db_ok cur_ts key new_target descr d)
          \<and> (\<not> persisted \<longrightarrow> self' = self \<and> d' = d)
          \<and> (persisted \<longrightarrow> engine_target_user self' = new_target
                \<and> target_user (config self') = new_target)
          \<and> engine_target_user self' = target_user (config self')"
  using assms
  by (simp add: update_target_user_def set_config_def Let_def)


text \<open>C10 at a failing and at a succeeding store.\<close>

theorem C10_witness:
  "engine_target_user ex_engine = target_user (config ex_engine)
   \<and> update_target_user False 7 [0x79, 0x6F, 0x75] ex_engine (init_database [] [])
       = (False, ex_engine, init_database [] [])
   \<and> fst (update_target_user True 7 [0x79, 0x6F, 0x75] ex_engine (init_database [] []))
   \<and> engine_target_user (fst (snd (update_target_user True 7 [0x79, 0x6F, 0x75] ex_engine
        (init_database [] [])))) = [0x79, 0x6F, 0x75]"
proof -
  have inv: "engine_target_user ex_engine = target_user (config ex_engine)"
    by (simp add: ex_engine_def new_RealtimeAlertEngine_def)
  from C10_update_target_user [OF inv, of False 7 "[0x79, 0x6F, 0x75]" "init_database [] []"]
       C10_update_target_user [OF inv, of True 7 "[0x79, 0x6F, 0x75]" "init_database [] []"]
       inv
  show ?thesis
    by (simp add: Let_def split_beta set_config_def prod_eq_iff)
qed

end
